theory Spec2Isabelle
  imports Complex_Main
begin

section \<open>JavaScript values used by the server\<close>

text \<open>
  A JavaScript number is a binary64 value: finite, one of the two infinities, or NaN.
  A finite value is represented by the rational it denotes. Wherever the language
  produces a number from a decimal literal or from a product, the exact result is rounded
  to the nearest binary64 value, ties to even, and overflows to an infinity
  (\<open>binary64\<close> below). The sign of zero is not represented.
\<close>

datatype jsnum = Num rat | PosInf | NegInf | NaN

text \<open>The number of binary digits of a positive integer.\<close>

function bitlen :: "int \<Rightarrow> int" where
  "bitlen n = (if n \<le> 0 then 0 else 1 + bitlen (n div 2))"
  by pat_completeness auto
termination
  by (relation "measure nat") auto

declare bitlen.simps [simp del]

definition pow2 :: "int \<Rightarrow> rat" where
  "pow2 e = (if 0 \<le> e then 2 ^ nat e else 1 / 2 ^ nat (- e))"

text \<open>For a positive \<open>x\<close>, the exponent \<open>d\<close> with \<open>2^d \<le> x < 2^(d+1)\<close>.\<close>

definition ilog2 :: "rat \<Rightarrow> int" where
  "ilog2 x =
     (let (p, q) = quotient_of x;
          d = bitlen p - bitlen q
      in if pow2 d \<le> x then d else d - 1)"

definition roundTiesToEven :: "rat \<Rightarrow> int" where
  "roundTiesToEven q =
     (let f = \<lfloor>q\<rfloor>; r = q - of_int f
      in if r < 1 / 2 then f
         else if 1 / 2 < r then f + 1
         else if even f then f else f + 1)"

text \<open>
  Rounding of a positive rational: the significand has 53 bits, the least exponent of the
  last bit is -1074 (below that the values are subnormal), and a result of \<open>2^1024\<close> or
  more is an overflow (None). With a last-bit exponent \<open>e\<close> the significand \<open>m\<close> is at
  most \<open>2^53\<close>, so the result \<open>m * 2^e\<close> reaches \<open>2^1024\<close> exactly when \<open>e\<close> exceeds 971
  or \<open>e\<close> is 971 and \<open>m\<close> was rounded up to \<open>2^53\<close>.
\<close>

definition binary64_pos :: "rat \<Rightarrow> rat option" where
  "binary64_pos x =
     (let e = max (ilog2 x - 52) (- 1074);
          m = roundTiesToEven (x / pow2 e)
      in if 971 < e \<or> (e = 971 \<and> m = 9007199254740992) then None
         else Some (of_int m * pow2 e))"

definition binary64 :: "rat \<Rightarrow> jsnum" where
  "binary64 x =
     (if x = 0 then Num 0
      else if 0 < x then (case binary64_pos x of None \<Rightarrow> PosInf | Some v \<Rightarrow> Num v)
      else (case binary64_pos (- x) of None \<Rightarrow> NegInf | Some v \<Rightarrow> Num (- v)))"

text \<open>
  A value of type \<open>string | undefined\<close> is a \<open>string option\<close>; a string is a list of
  character codes below 256. Of the ECMAScript white-space class the ASCII members and
  the no-break space are such characters; its other members are not represented.
\<close>

definition isWhiteSpace :: "char \<Rightarrow> bool" where
  "isWhiteSpace c =
     (c \<in> set [CHR '' '', CHR 0x09, CHR 0x0A, CHR 0x0B, CHR 0x0C, CHR 0x0D, CHR 0xA0])"

definition isDigit :: "char \<Rightarrow> bool" where
  "isDigit c = (c \<in> set ''0123456789'')"

definition digitVal :: "char \<Rightarrow> int" where
  "digitVal c = of_char c - 48"

definition digitsVal :: "string \<Rightarrow> int" where
  "digitsVal ds = foldl (\<lambda>acc c. 10 * acc + digitVal c) 0 ds"

text \<open>\<open>String.prototype.trim\<close>: white space is removed at both ends.\<close>

definition trim :: "string \<Rightarrow> string" where
  "trim s = rev (dropWhile isWhiteSpace (rev (dropWhile isWhiteSpace s)))"

text \<open>Truthiness of a \<open>string | undefined\<close>: undefined and the empty string are falsy.\<close>

definition truthy :: "string option \<Rightarrow> bool" where
  "truthy v = (case v of None \<Rightarrow> False | Some s \<Rightarrow> s \<noteq> [])"

text \<open>The nullish coalescing operator \<open>a ?? b\<close>.\<close>

definition nullish :: "'a option \<Rightarrow> 'a \<Rightarrow> 'a" where
  "nullish a b = (case a of None \<Rightarrow> b | Some v \<Rightarrow> v)"

text \<open>An optional sign in front of a numeric literal.\<close>

definition signPart :: "string \<Rightarrow> bool \<times> string" where
  "signPart s =
     (case s of
        [] \<Rightarrow> (False, [])
      | c # r \<Rightarrow>
          if c = CHR ''-'' then (True, r)
          else if c = CHR ''+'' then (False, r)
          else (False, s))"

text \<open>
  The value of an optional \<open>ExponentPart\<close> at the head of the string: \<open>e\<close> or \<open>E\<close>, an
  optional sign and at least one digit; anything else is not part of the literal.
\<close>

definition exponentPart :: "string \<Rightarrow> int" where
  "exponentPart s =
     (case s of
        [] \<Rightarrow> 0
      | c # r \<Rightarrow>
          if c = CHR ''e'' \<or> c = CHR ''E'' then
            (let (neg, t) = signPart r; ds = takeWhile isDigit t
             in if ds = [] then 0
                else if neg then - digitsVal ds else digitsVal ds)
          else 0)"

definition scale10 :: "rat \<Rightarrow> int \<Rightarrow> rat" where
  "scale10 m e = (if 0 \<le> e then m * 10 ^ nat e else m / 10 ^ nat (- e))"

text \<open>
  \<open>Number.parseFloat\<close>: leading white space is skipped, then the longest prefix that is
  a \<open>StrDecimalLiteral\<close> is read (sign, then \<open>Infinity\<close> or digits with an optional
  fraction and exponent); NaN when there is no such prefix. The result is the binary64
  value nearest to the decimal value read.
\<close>

definition parseFloat :: "string \<Rightarrow> jsnum" where
  "parseFloat inputString =
     (let (neg, u) = signPart (dropWhile isWhiteSpace inputString)
      in if take 8 u = ''Infinity'' then (if neg then NegInf else PosInf)
         else
           (let d1 = takeWhile isDigit u;
                r1 = dropWhile isDigit u;
                hasDot = (case r1 of [] \<Rightarrow> False | c # _ \<Rightarrow> c = CHR ''.'');
                d2 = (if hasDot then takeWhile isDigit (tl r1) else []);
                r2 = (if hasDot then dropWhile isDigit (tl r1) else r1)
            in if d1 = [] \<and> d2 = [] then NaN
               else
                 (let m = of_int (digitsVal d1) + of_int (digitsVal d2) / 10 ^ length d2;
                      v = scale10 m (exponentPart r2)
                  in binary64 (if neg then - v else v))))"

text \<open>\<open>Number.parseInt(s, 10)\<close>: white space, sign, then the longest run of digits.\<close>

definition parseInt :: "string \<Rightarrow> jsnum" where
  "parseInt inputString =
     (let (neg, u) = signPart (dropWhile isWhiteSpace inputString);
          ds = takeWhile isDigit u
      in if ds = [] then NaN
         else binary64 (of_int (if neg then - digitsVal ds else digitsVal ds)))"

text \<open>
  \<open>Number.isNaN\<close>, \<open>Number.isFinite\<close>, multiplication of two numbers (the exact
  product, rounded), and \<open>Math.round\<close> (the integer nearest to its argument, the
  larger one at a tie; this is exact, since a binary64 value of magnitude \<open>2^52\<close> or more
  is an integer).
\<close>

definition isNaN :: "jsnum \<Rightarrow> bool" where
  "isNaN x = (case x of NaN \<Rightarrow> True | _ \<Rightarrow> False)"

definition Number_isFinite :: "jsnum \<Rightarrow> bool" where
  "Number_isFinite x = (case x of Num _ \<Rightarrow> True | _ \<Rightarrow> False)"

fun js_times :: "jsnum \<Rightarrow> jsnum \<Rightarrow> jsnum" where
  "js_times (Num a) (Num b) = binary64 (a * b)"
| "js_times NaN _ = NaN"
| "js_times _ NaN = NaN"
| "js_times (Num a) PosInf = (if a = 0 then NaN else if 0 < a then PosInf else NegInf)"
| "js_times (Num a) NegInf = (if a = 0 then NaN else if 0 < a then NegInf else PosInf)"
| "js_times PosInf (Num b) = (if b = 0 then NaN else if 0 < b then PosInf else NegInf)"
| "js_times NegInf (Num b) = (if b = 0 then NaN else if 0 < b then NegInf else PosInf)"
| "js_times PosInf PosInf = PosInf"
| "js_times PosInf NegInf = NegInf"
| "js_times NegInf PosInf = NegInf"
| "js_times NegInf NegInf = PosInf"

fun Math_round :: "jsnum \<Rightarrow> jsnum" where
  "Math_round (Num r) = Num (of_int \<lfloor>r + 1 / 2\<rfloor>)"
| "Math_round x = x"

section \<open>Numeric string parser\<close>

text \<open>The global replacement \<open>value.replace(/[+,%$M]/g, '')\<close>.\<close>

fun replaceDecoration :: "string \<Rightarrow> string" where
  "replaceDecoration [] = []"
| "replaceDecoration (c # cs) =
     (if c \<in> set ''+,%$M'' then replaceDecoration cs else c # replaceDecoration cs)"

definition parseNumericString :: "string option \<Rightarrow> jsnum option" where
  "parseNumericString v =
     (if \<not> truthy v then None
      else
        (let normalized = trim (replaceDecoration (the v));
             parsed = parseFloat normalized
         in if isNaN parsed then None else Some parsed))"

section \<open>Provider A normalizer\<close>

type_synonym raw_entry = "string \<rightharpoonup> string"

record NormalizedEntry =
  ticker :: string
  price :: jsnum
  change :: jsnum
  changePercent :: jsnum
  volume :: "jsnum option"

definition normalizeEntry :: "raw_entry \<Rightarrow> NormalizedEntry" where
  "normalizeEntry entry =
     \<lparr> ticker = nullish (entry ''ticker'') (nullish (entry ''symbol'') ''N/A''),
       price = nullish (parseNumericString (entry ''price'')) (Num 0),
       change = nullish (parseNumericString (entry ''change_amount'')) (Num 0),
       changePercent = nullish (parseNumericString (entry ''change_percentage'')) (Num 0),
       volume =
         (case parseNumericString (entry ''volume'') of
            Some rawVolume \<Rightarrow> Some rawVolume
          | None \<Rightarrow>
              (case parseNumericString (entry ''volume_millions'') of
                 Some volumeMillions \<Rightarrow> Some (Math_round (js_times volumeMillions (Num 1000000)))
               | None \<Rightarrow> None)) \<rparr>"

section \<open>Limit validation\<close>

datatype zod_issue = invalid_type | not_integer | too_small | too_big

datatype error =
    MissingApiKey
  | AlphaVantageFailed nat
  | UpstreamMessage string
  | YahooFailed nat
  | ZodError "zod_issue list"
  | FetchError
  | JsonSyntaxError

text \<open>
  \<open>limitSchema.parse\<close> for \<open>z.number().int().min(1).max(20).default(10)\<close>: the default
  replaces an undefined input only; NaN is not a number for the schema; the three checks
  are all run and every failed one is reported.
\<close>

definition limitSchema :: "jsnum option \<Rightarrow> error + jsnum" where
  "limitSchema input =
     (case nullish input (Num 10) of
        NaN \<Rightarrow> Inl (ZodError [invalid_type])
      | PosInf \<Rightarrow> Inl (ZodError [not_integer, too_big])
      | NegInf \<Rightarrow> Inl (ZodError [not_integer, too_small])
      | Num r \<Rightarrow>
          (let issues =
                 (if of_int \<lfloor>r\<rfloor> = r then [] else [not_integer])
                 @ (if r < 1 then [too_small] else [])
                 @ (if 20 < r then [too_big] else [])
           in if issues = [] then Inr (Num r) else Inl (ZodError issues)))"

text \<open>
  The argument the top-movers route gives to the schema:
  \<open>req.query.limit ? Number.parseInt(String(req.query.limit), 10) : 10\<close>.
\<close>

definition queryLimit :: "string option \<Rightarrow> error + jsnum" where
  "queryLimit limit =
     limitSchema (Some (if truthy limit then parseInt (the limit) else Num 10))"

section \<open>Provider A aggregation\<close>

record TopMoversResponse =
  top_gainers :: "raw_entry list option"
  top_losers :: "raw_entry list option"
  top_most_actively_traded :: "raw_entry list option"
  message :: "string option"
  "note" :: "string option"

text \<open>
  What \<open>await fetch(url)\<close> gives: the promise rejects, or it resolves to a response with
  its \<open>ok\<close> flag, its status and a body; \<open>json\<close> is None when the body is not JSON, in
  which case \<open>response.json()\<close> rejects.
\<close>

record 'a Response =
  ok :: bool
  status :: nat
  json :: "'a option"

datatype 'a fetched = Rejected | Resolved "'a Response"

record ToolOutput =
  gainers :: "NormalizedEntry list"
  losers :: "NormalizedEntry list"
  mostActive :: "NormalizedEntry list"

definition ensureSuccess :: "'a Response \<Rightarrow> error + unit" where
  "ensureSuccess response =
     (if \<not> ok response then Inl (AlphaVantageFailed (status response)) else Inr ())"

text \<open>\<open>items.slice(0, end)\<close> for a number \<open>end\<close>.\<close>

definition slice0 :: "'a list \<Rightarrow> jsnum \<Rightarrow> 'a list" where
  "slice0 items end =
     (case end of
        NaN \<Rightarrow> []
      | NegInf \<Rightarrow> []
      | PosInf \<Rightarrow> items
      | Num r \<Rightarrow>
          (let k = (if 0 \<le> r then \<lfloor>r\<rfloor> else \<lceil>r\<rceil>)
           in if k < 0 then take (nat (int (length items) + k)) items else take (nat k) items))"

definition normalizeList :: "jsnum \<Rightarrow> raw_entry list option \<Rightarrow> NormalizedEntry list" where
  "normalizeList limitValue items = map normalizeEntry (slice0 (nullish items []) limitValue)"

definition getTopMovers ::
  "string option \<Rightarrow> TopMoversResponse fetched \<Rightarrow> jsnum \<Rightarrow> error + ToolOutput" where
  "getTopMovers apiKey upstream limit =
     (if \<not> truthy apiKey then Inl MissingApiKey
      else
        (case upstream of
           Rejected \<Rightarrow> Inl FetchError
         | Resolved response \<Rightarrow>
             (case ensureSuccess response of
                Inl e \<Rightarrow> Inl e
              | Inr _ \<Rightarrow>
                  (case json response of
                     None \<Rightarrow> Inl JsonSyntaxError
                   | Some data \<Rightarrow>
                       if truthy (message data) \<or> truthy (note data) then
                         Inl (UpstreamMessage
                                (if truthy (message data) then the (message data)
                                 else the (note data)))
                       else
                         (case limitSchema (Some limit) of
                            Inl e \<Rightarrow> Inl e
                          | Inr limitValue \<Rightarrow>
                              Inr \<lparr> gainers = normalizeList limitValue (top_gainers data),
                                    losers = normalizeList limitValue (top_losers data),
                                    mostActive =
                                      normalizeList limitValue (top_most_actively_traded data) \<rparr>)))))"

text \<open>
  A route answers with the JSON of its data, or with status 500 and the caught error.
\<close>

datatype 'a reply = Json200 'a | Json500 error

definition api_top_movers ::
  "string option \<Rightarrow> TopMoversResponse fetched \<Rightarrow> string option \<Rightarrow> ToolOutput reply" where
  "api_top_movers apiKey upstream limit =
     (case queryLimit limit of
        Inl e \<Rightarrow> Json500 e
      | Inr limitValue \<Rightarrow>
          (case getTopMovers apiKey upstream limitValue of
             Inl e \<Rightarrow> Json500 e
           | Inr data \<Rightarrow> Json200 data))"

section \<open>Provider B normalizer\<close>

text \<open>
  A numeric field of an upstream quote is None when it is absent or is not a number.
\<close>

record YahooQuote =
  symbol :: "string option"
  shortName :: "string option"
  longName :: "string option"
  regularMarketPrice :: "jsnum option"
  regularMarketPreviousClose :: "jsnum option"
  regularMarketChange :: "jsnum option"
  regularMarketChangePercent :: "jsnum option"

record YahooResult =
  quotes :: "YahooQuote list option"

record YahooFinance =
  result :: "YahooResult list option"

record YahooFinanceResponse =
  finance :: "YahooFinance option"

record NormalizedYahooQuote =
  symbol :: string
  name :: string
  price :: "jsnum option"
  previousClose :: "jsnum option"
  change :: "jsnum option"
  changePercent :: "jsnum option"

definition isFiniteNumber :: "jsnum option \<Rightarrow> bool" where
  "isFiniteNumber v = (case v of None \<Rightarrow> False | Some x \<Rightarrow> Number_isFinite x)"

definition normalizeYahooQuote :: "YahooQuote \<Rightarrow> NormalizedYahooQuote" where
  "normalizeYahooQuote quote =
     (let sym = nullish (map_option trim (YahooQuote.symbol quote)) ''N/A'';
          rawName = nullish (shortName quote) (nullish (longName quote) []);
          trimmedName = trim rawName
      in \<lparr> symbol = sym,
            name = (if 0 < length trimmedName then trimmedName else ''Unknown Company''),
            price =
              (if isFiniteNumber (regularMarketPrice quote) then regularMarketPrice quote
               else None),
            previousClose =
              (if isFiniteNumber (regularMarketPreviousClose quote)
               then regularMarketPreviousClose quote else None),
            change =
              (if isFiniteNumber (regularMarketChange quote) then regularMarketChange quote
               else None),
            changePercent =
              (if isFiniteNumber (regularMarketChangePercent quote)
               then regularMarketChangePercent quote else None) \<rparr>)"

text \<open>\<open>data.finance?.result?.[0]?.quotes ?? []\<close>.\<close>

definition upstreamQuotes :: "YahooFinanceResponse \<Rightarrow> YahooQuote list" where
  "upstreamQuotes data =
     (case finance data of
        None \<Rightarrow> []
      | Some f \<Rightarrow>
          (case result f of
             None \<Rightarrow> []
           | Some [] \<Rightarrow> []
           | Some (r # _) \<Rightarrow> nullish (quotes r) []))"

definition getYahooGainers ::
  "YahooFinanceResponse fetched \<Rightarrow> error + NormalizedYahooQuote list" where
  "getYahooGainers upstream =
     (case upstream of
        Rejected \<Rightarrow> Inl FetchError
      | Resolved response \<Rightarrow>
          if \<not> ok response then Inl (YahooFailed (status response))
          else
            (case json response of
               None \<Rightarrow> Inl JsonSyntaxError
             | Some data \<Rightarrow>
                 Inr (filter
                        (\<lambda>quote. NormalizedYahooQuote.symbol quote \<noteq> ''N/A''
                                  \<and> 0 < length (NormalizedYahooQuote.symbol quote))
                        (map normalizeYahooQuote (upstreamQuotes data)))))"

text \<open>
  The yahoo-gainers route; its first argument is the \<open>limit\<close> query parameter of the
  request, which the handler (\<open>_req\<close>) does not read.
\<close>

definition api_yahoo_gainers ::
  "string option \<Rightarrow> YahooFinanceResponse fetched \<Rightarrow> NormalizedYahooQuote list reply" where
  "api_yahoo_gainers limit upstream =
     (case getYahooGainers upstream of
        Inl e \<Rightarrow> Json500 e
      | Inr qs \<Rightarrow> Json200 qs)"

section \<open>Properties of the numeric string parser\<close>

lemma replaceDecoration_filter:
  "replaceDecoration s =
     filter (\<lambda>c. c \<notin> {CHR ''+'', CHR '','', CHR ''%'', CHR ''$'', CHR ''M''}) s"
  by (induction s) auto

lemma replaceDecoration_append:
  "replaceDecoration (s @ t) = replaceDecoration s @ replaceDecoration t"
  by (simp add: replaceDecoration_filter)

lemma parseNumericString_not_NaN: "parseNumericString v \<noteq> Some NaN"
  by (auto simp: parseNumericString_def Let_def isNaN_def split: jsnum.splits)

text \<open>
  C3. The parser is a total function of its string-or-absent input: it gives "no value"
  when the input is absent or empty, or when the input with every \<open>+ , % $ M\<close> removed
  and then trimmed does not parse as a float, and otherwise the float value of that
  stripped and trimmed string. An absent or empty input never gives the number 0.
\<close>

theorem parseNumericString_contract:
  "parseNumericString v =
     (case v of
        None \<Rightarrow> None
      | Some s \<Rightarrow>
          if s = [] then None
          else if parseFloat (trim (filter (\<lambda>c. c \<notin> {CHR ''+'', CHR '','', CHR ''%'', CHR ''$'', CHR ''M''}) s)) = NaN
          then None
          else Some (parseFloat (trim (filter (\<lambda>c. c \<notin> {CHR ''+'', CHR '','', CHR ''%'', CHR ''$'', CHR ''M''}) s))))
   \<and> parseNumericString None \<noteq> Some (Num 0)
   \<and> parseNumericString (Some []) \<noteq> Some (Num 0)"
  by (auto simp: parseNumericString_def truthy_def Let_def isNaN_def replaceDecoration_filter
      split: option.splits jsnum.splits)

section \<open>Properties of the Provider A normalizer\<close>

text \<open>
  C10. A volume field \<open>3M\<close> with no volume-in-millions field normalizes to the volume 3:
  the \<open>M\<close> is removed as decoration and nothing is scaled. In general a trailing \<open>M\<close> on
  the volume field never changes the normalized volume, whatever the other fields are.
\<close>

theorem millions_suffix_not_scaled:
  "NormalizedEntry.volume (normalizeEntry [''volume'' \<mapsto> ''3M'']) = Some (Num 3)
   \<and> NormalizedEntry.volume (normalizeEntry (entry(''volume'' \<mapsto> s @ ''M'')))
       = NormalizedEntry.volume (normalizeEntry (entry(''volume'' \<mapsto> s)))"
proof
  show "NormalizedEntry.volume (normalizeEntry [''volume'' \<mapsto> ''3M'']) = Some (Num 3)"
    by code_simp
next
  have "parseNumericString (Some (s @ ''M'')) = parseNumericString (Some s)"
    by (simp add: parseNumericString_def truthy_def replaceDecoration_append isNaN_def
        parseFloat_def signPart_def trim_def)
  then show "NormalizedEntry.volume (normalizeEntry (entry(''volume'' \<mapsto> s @ ''M'')))
       = NormalizedEntry.volume (normalizeEntry (entry(''volume'' \<mapsto> s)))"
    by (simp add: normalizeEntry_def split: option.splits)
qed

lemma binary64_not_NaN: "binary64 x \<noteq> NaN"
  by (simp add: binary64_def split: option.splits)

lemma Math_round_not_NaN: "x \<noteq> NaN \<Longrightarrow> Math_round x \<noteq> NaN"
  by (cases x) auto

lemma js_times_million_not_NaN: "m \<noteq> NaN \<Longrightarrow> js_times m (Num 1000000) \<noteq> NaN"
  by (cases m) (auto simp: binary64_not_NaN)

lemma Math_round_times_not_NaN:
  "m \<noteq> NaN \<Longrightarrow> Math_round (js_times m (Num 1000000)) \<noteq> NaN"
  by (simp add: Math_round_not_NaN js_times_million_not_NaN)

lemma nullish_parse_not_NaN: "nullish (parseNumericString v) (Num 0) \<noteq> NaN"
  using parseNumericString_not_NaN [of v]
  by (cases "parseNumericString v") (auto simp: nullish_def)

lemma volume_cases:
  "NormalizedEntry.volume (normalizeEntry entry) =
     (case parseNumericString (entry ''volume'') of
        Some rawVolume \<Rightarrow> Some rawVolume
      | None \<Rightarrow>
          (case parseNumericString (entry ''volume_millions'') of
             Some volumeMillions \<Rightarrow> Some (Math_round (js_times volumeMillions (Num 1000000)))
           | None \<Rightarrow> None))"
  by (simp add: normalizeEntry_def)

lemma volume_not_NaN: "NormalizedEntry.volume (normalizeEntry entry) \<noteq> Some NaN"
proof (cases "parseNumericString (entry ''volume'')")
  case (Some v)
  then show ?thesis
    using parseNumericString_not_NaN [of "entry ''volume''"]
    by (simp add: volume_cases)
next
  case None
  show ?thesis
  proof (cases "parseNumericString (entry ''volume_millions'')")
    case (Some m)
    then have "m \<noteq> NaN"
      using parseNumericString_not_NaN [of "entry ''volume_millions''"] by auto
    then show ?thesis
      using None Some Math_round_times_not_NaN [of m]
      by (simp add: volume_cases)
  next
    case absent: None
    then show ?thesis using None by (simp add: volume_cases)
  qed
qed

text \<open>
  C4, as the claim states it, fails on two kinds of record. A volume-in-millions field
  \<open>Infinity\<close> parses, and the normalized volume is then the infinite number, not an
  integer. And for the field \<open>9007199254.740993\<close> the product with 1,000,000 is rounded
  to binary64 before \<open>Math.round\<close> sees it: the volume is 9007199254740994, which is
  further than one half from the parsed value times 1,000,000.
\<close>

theorem volume_fallback_counterexample:
  "NormalizedEntry.volume (normalizeEntry [''volume_millions'' \<mapsto> ''Infinity''])
     = Some PosInf
   \<and> parseNumericString (Some ''9007199254.740993'')
     = Some (Num (2361183241434823 / 262144))
   \<and> NormalizedEntry.volume (normalizeEntry [''volume_millions'' \<mapsto> ''9007199254.740993''])
     = Some (Num 9007199254740994)
   \<and> 1 / 2 < \<bar>9007199254740994 - (2361183241434823 / 262144) * (1000000 :: rat)\<bar>"
proof -
  have "NormalizedEntry.volume (normalizeEntry [''volume_millions'' \<mapsto> ''Infinity''])
     = Some PosInf"
    by code_simp
  moreover have "parseNumericString (Some ''9007199254.740993'')
     = Some (Num (2361183241434823 / 262144))"
    by code_simp
  moreover have
    "NormalizedEntry.volume (normalizeEntry [''volume_millions'' \<mapsto> ''9007199254.740993''])
     = Some (Num 9007199254740994)"
    by code_simp
  moreover have "1 / 2 < \<bar>9007199254740994 - (2361183241434823 / 262144) * (1000000 :: rat)\<bar>"
    by simp
  ultimately show ?thesis by blast
qed

text \<open>
  C4, amended. The normalized volume is the parsed volume field when that field parses,
  whatever the volume-in-millions field holds. Otherwise, when the volume-in-millions
  field parses, it is \<open>Math.round\<close> of the binary64 product of the parsed value and
  1,000,000: an integer at distance at most one half from that product when the product
  is finite, and the infinite product itself otherwise. Otherwise it is unknown, and in
  particular not 0.
\<close>

theorem volume_fallback:
  "(parseNumericString (entry ''volume'') = Some v
      \<longrightarrow> NormalizedEntry.volume (normalizeEntry entry) = Some v)
   \<and> (parseNumericString (entry ''volume'') = None
        \<and> parseNumericString (entry ''volume_millions'') = Some m
      \<longrightarrow> NormalizedEntry.volume (normalizeEntry entry)
            = Some (Math_round (js_times m (Num 1000000))))
   \<and> (parseNumericString (entry ''volume'') = None
        \<and> parseNumericString (entry ''volume_millions'') = Some m
        \<and> js_times m (Num 1000000) = Num p
      \<longrightarrow> (\<exists>k::int. NormalizedEntry.volume (normalizeEntry entry) = Some (Num (of_int k))
               \<and> \<bar>of_int k - p\<bar> \<le> 1 / 2))
   \<and> (parseNumericString (entry ''volume'') = None
        \<and> parseNumericString (entry ''volume_millions'') = Some m
        \<and> \<not> Number_isFinite (js_times m (Num 1000000))
      \<longrightarrow> NormalizedEntry.volume (normalizeEntry entry) = Some (js_times m (Num 1000000)))
   \<and> (parseNumericString (entry ''volume'') = None
        \<and> parseNumericString (entry ''volume_millions'') = None
      \<longrightarrow> NormalizedEntry.volume (normalizeEntry entry) = None
          \<and> NormalizedEntry.volume (normalizeEntry entry) \<noteq> Some (Num 0))"
proof -
  have near: "\<bar>of_int \<lfloor>p + 1 / 2\<rfloor> - p\<bar> \<le> 1 / 2" for p :: rat
    by linarith
  have inf: "\<not> Number_isFinite x \<Longrightarrow> Math_round x = x" for x
    by (cases x) (simp_all add: Number_isFinite_def)
  show ?thesis
    using near inf by (auto simp: volume_cases)
qed

text \<open>
  The volume field wins over the volume-in-millions field; \<open>volume_millions = 2.5\<close> alone
  gives 2,500,000, the product 2.5 times 1,000,000 being exact in binary64; a record in
  which neither field parses has an unknown volume.
\<close>

theorem volume_fallback_witness:
  "NormalizedEntry.volume
     (normalizeEntry [''volume'' \<mapsto> ''1,000'', ''volume_millions'' \<mapsto> ''2.5''])
     = Some (Num 1000)
   \<and> js_times (Num (5 / 2)) (Num 1000000) = Num 2500000
   \<and> NormalizedEntry.volume (normalizeEntry [''volume_millions'' \<mapsto> ''2.5''])
     = Some (Num 2500000)
   \<and> NormalizedEntry.volume (normalizeEntry [''volume'' \<mapsto> ''n/a'']) = None"
proof -
  have p1: "parseNumericString (Some ''1,000'') = Some (Num 1000)" by code_simp
  have p2: "parseNumericString (Some ''2.5'') = Some (Num (5 / 2))" by code_simp
  have p3: "parseNumericString (Some ''n/a'') = None" by code_simp
  have p4: "parseNumericString None = None" by code_simp
  have t: "js_times (Num (5 / 2)) (Num 1000000) = Num 2500000" by code_simp
  have r: "Math_round (Num 2500000) = Num 2500000" by code_simp
  show ?thesis
    using
      volume_fallback
        [of "[''volume'' \<mapsto> ''1,000'', ''volume_millions'' \<mapsto> ''2.5'']" "Num 1000"]
      volume_fallback [of "[''volume_millions'' \<mapsto> ''2.5'']" _ "Num (5 / 2)" 2500000]
      volume_fallback [of "[''volume'' \<mapsto> ''n/a'']"]
    by (simp add: p1 p2 p3 p4 t r del: Math_round.simps js_times.simps)
qed

text \<open>
  C2, as the claim states it, fails: a record whose ticker field is the empty string
  keeps the empty ticker, and a price field \<open>Infinity\<close> is parsed to the infinite number.
\<close>

theorem normalizeEntry_invariant_counterexample:
  "ticker (normalizeEntry [''ticker'' \<mapsto> [], ''price'' \<mapsto> ''Infinity'']) = []
   \<and> NormalizedEntry.price (normalizeEntry [''ticker'' \<mapsto> [], ''price'' \<mapsto> ''Infinity''])
       = PosInf
   \<and> \<not> Number_isFinite
         (NormalizedEntry.price
            (normalizeEntry [''ticker'' \<mapsto> [], ''price'' \<mapsto> ''Infinity'']))"
  by code_simp

text \<open>
  C2, amended. The normalized ticker is the ticker field when that is present and not
  empty, else (ticker absent) the symbol field when that is present and not empty, and
  the sentinel \<open>N/A\<close> when both are absent. Price, change and changePercent, and the
  volume when it is known, are never NaN; a price, change or changePercent that does not
  parse becomes 0.
\<close>

theorem normalizeEntry_invariant:
  "(entry ''ticker'' = Some t \<and> t \<noteq> [] \<longrightarrow> ticker (normalizeEntry entry) = t)
   \<and> (entry ''ticker'' = None \<and> entry ''symbol'' = Some s \<and> s \<noteq> []
        \<longrightarrow> ticker (normalizeEntry entry) = s)
   \<and> (entry ''ticker'' = None \<and> entry ''symbol'' = None
        \<longrightarrow> ticker (normalizeEntry entry) = ''N/A'')
   \<and> NormalizedEntry.price (normalizeEntry entry) \<noteq> NaN
   \<and> NormalizedEntry.change (normalizeEntry entry) \<noteq> NaN
   \<and> NormalizedEntry.changePercent (normalizeEntry entry) \<noteq> NaN
   \<and> NormalizedEntry.volume (normalizeEntry entry) \<noteq> Some NaN
   \<and> (parseNumericString (entry ''price'') = None
        \<longrightarrow> NormalizedEntry.price (normalizeEntry entry) = Num 0)
   \<and> (parseNumericString (entry ''change_amount'') = None
        \<longrightarrow> NormalizedEntry.change (normalizeEntry entry) = Num 0)
   \<and> (parseNumericString (entry ''change_percentage'') = None
        \<longrightarrow> NormalizedEntry.changePercent (normalizeEntry entry) = Num 0)"
proof -
  have "NormalizedEntry.price (normalizeEntry entry) \<noteq> NaN"
    "NormalizedEntry.change (normalizeEntry entry) \<noteq> NaN"
    "NormalizedEntry.changePercent (normalizeEntry entry) \<noteq> NaN"
    by (simp_all add: normalizeEntry_def nullish_parse_not_NaN)
  moreover have "parseNumericString (entry ''price'') = None
        \<longrightarrow> NormalizedEntry.price (normalizeEntry entry) = Num 0"
    "parseNumericString (entry ''change_amount'') = None
        \<longrightarrow> NormalizedEntry.change (normalizeEntry entry) = Num 0"
    "parseNumericString (entry ''change_percentage'') = None
        \<longrightarrow> NormalizedEntry.changePercent (normalizeEntry entry) = Num 0"
    by (simp_all add: normalizeEntry_def nullish_def)
  moreover have
    "(entry ''ticker'' = Some t \<and> t \<noteq> [] \<longrightarrow> ticker (normalizeEntry entry) = t)
     \<and> (entry ''ticker'' = None \<and> entry ''symbol'' = Some s \<and> s \<noteq> []
          \<longrightarrow> ticker (normalizeEntry entry) = s)
     \<and> (entry ''ticker'' = None \<and> entry ''symbol'' = None
          \<longrightarrow> ticker (normalizeEntry entry) = ''N/A'')"
    by (simp add: normalizeEntry_def nullish_def)
  ultimately show ?thesis
    using volume_not_NaN [of entry] by blast
qed

theorem normalizeEntry_invariant_witness:
  "ticker (normalizeEntry [''ticker'' \<mapsto> ''ABC'', ''price'' \<mapsto> ''n/a'']) = ''ABC''
   \<and> ticker (normalizeEntry [''symbol'' \<mapsto> ''XYZ'']) = ''XYZ''
   \<and> ticker (normalizeEntry Map.empty) = ''N/A''
   \<and> NormalizedEntry.price (normalizeEntry [''ticker'' \<mapsto> ''ABC'', ''price'' \<mapsto> ''n/a''])
       = Num 0"
proof -
  have p: "parseNumericString (Some ''n/a'') = None" by code_simp
  show ?thesis
    using
      normalizeEntry_invariant [of "[''ticker'' \<mapsto> ''ABC'', ''price'' \<mapsto> ''n/a'']" "''ABC''"]
      normalizeEntry_invariant [of "[''symbol'' \<mapsto> ''XYZ'']" _ "''XYZ''"]
      normalizeEntry_invariant [of Map.empty]
    by (simp add: p)
qed

section \<open>Properties of the Provider B normalizer\<close>

text \<open>
  C5. The name is meant to be the trimmed shortName when that is not blank, otherwise the
  trimmed longName when that is not blank, otherwise \<open>Unknown Company\<close>. On a quote
  whose shortName is present and blank while its longName is a usable name, the
  normalizer returns \<open>Unknown Company\<close>: the longName is only consulted when the
  shortName is absent, and the blank test comes after that choice.
\<close>

theorem blank_shortName_hides_longName:
  "NormalizedYahooQuote.name
     (normalizeYahooQuote
        \<lparr> YahooQuote.symbol = Some ''ACME'', shortName = Some ''   '',
          longName = Some ''Acme Corp'', regularMarketPrice = Some (Num 10),
          regularMarketPreviousClose = Some (Num 9), regularMarketChange = Some (Num 1),
          regularMarketChangePercent = Some (Num 11) \<rparr>)
   = ''Unknown Company''"
  by code_simp

lemma finite_or_unknown:
  "(if isFiniteNumber v then v else None)
     = (case v of Some (Num x) \<Rightarrow> Some (Num x) | _ \<Rightarrow> None)"
  by (simp add: isFiniteNumber_def Number_isFinite_def split: option.splits jsnum.splits)

lemma normalizeYahooQuote_numeric:
  "NormalizedYahooQuote.price (normalizeYahooQuote q)
     = (case regularMarketPrice q of Some (Num x) \<Rightarrow> Some (Num x) | _ \<Rightarrow> None)
   \<and> previousClose (normalizeYahooQuote q)
     = (case regularMarketPreviousClose q of Some (Num x) \<Rightarrow> Some (Num x) | _ \<Rightarrow> None)
   \<and> NormalizedYahooQuote.change (normalizeYahooQuote q)
     = (case regularMarketChange q of Some (Num x) \<Rightarrow> Some (Num x) | _ \<Rightarrow> None)
   \<and> NormalizedYahooQuote.changePercent (normalizeYahooQuote q)
     = (case regularMarketChangePercent q of Some (Num x) \<Rightarrow> Some (Num x) | _ \<Rightarrow> None)"
  by (simp add: normalizeYahooQuote_def Let_def finite_or_unknown)

lemma getYahooGainers_Inr:
  "getYahooGainers upstream = Inr out \<Longrightarrow>
   \<exists>response data. upstream = Resolved response \<and> ok response \<and> json response = Some data
     \<and> out = filter (\<lambda>quote. NormalizedYahooQuote.symbol quote \<noteq> ''N/A''
                               \<and> 0 < length (NormalizedYahooQuote.symbol quote))
                (map normalizeYahooQuote (upstreamQuotes data))"
  by (auto simp: getYahooGainers_def split: fetched.splits if_splits option.splits)

text \<open>
  C6. The list that the Provider B call returns is the list of normalized upstream
  quotes without those whose symbol is empty or \<open>N/A\<close>. Every record of it has a
  symbol that is neither empty nor \<open>N/A\<close>, and comes from an upstream quote with a
  symbol field whose trimmed value it carries; each of price, previousClose, change and changePercent is the
  upstream field when that is a finite number and is unknown otherwise, so a missing or
  non-finite field never becomes 0.
\<close>

theorem getYahooGainers_records:
  assumes "getYahooGainers (Resolved response) = Inr out"
    and "r \<in> set out"
  shows "NormalizedYahooQuote.symbol r \<noteq> []
    \<and> NormalizedYahooQuote.symbol r \<noteq> ''N/A''
    \<and> (\<exists>data q. json response = Some data
          \<and> out = filter (\<lambda>quote. NormalizedYahooQuote.symbol quote \<noteq> ''N/A''
                                    \<and> NormalizedYahooQuote.symbol quote \<noteq> [])
                     (map normalizeYahooQuote (upstreamQuotes data))
          \<and> q \<in> set (upstreamQuotes data)
          \<and> r = normalizeYahooQuote q
          \<and> YahooQuote.symbol q = Some (the (YahooQuote.symbol q))
          \<and> NormalizedYahooQuote.symbol r = trim (the (YahooQuote.symbol q))
          \<and> NormalizedYahooQuote.price r
              = (case regularMarketPrice q of Some (Num x) \<Rightarrow> Some (Num x) | _ \<Rightarrow> None)
          \<and> previousClose r
              = (case regularMarketPreviousClose q of
                   Some (Num x) \<Rightarrow> Some (Num x) | _ \<Rightarrow> None)
          \<and> NormalizedYahooQuote.change r
              = (case regularMarketChange q of Some (Num x) \<Rightarrow> Some (Num x) | _ \<Rightarrow> None)
          \<and> NormalizedYahooQuote.changePercent r
              = (case regularMarketChangePercent q of
                   Some (Num x) \<Rightarrow> Some (Num x) | _ \<Rightarrow> None))"
proof -
  from getYahooGainers_Inr [OF assms(1)] obtain data where
    d: "json response = Some data" and
    out: "out = filter (\<lambda>quote. NormalizedYahooQuote.symbol quote \<noteq> ''N/A''
                               \<and> 0 < length (NormalizedYahooQuote.symbol quote))
                (map normalizeYahooQuote (upstreamQuotes data))"
    by auto
  from assms(2) out obtain q where
    q: "q \<in> set (upstreamQuotes data)" "r = normalizeYahooQuote q" and
    s: "NormalizedYahooQuote.symbol r \<noteq> ''N/A''" "NormalizedYahooQuote.symbol r \<noteq> []"
    by auto
  have sym:
    "NormalizedYahooQuote.symbol r = nullish (map_option trim (YahooQuote.symbol q)) ''N/A''"
    using q(2) by (simp add: normalizeYahooQuote_def Let_def)
  with s(1) obtain raw where raw: "YahooQuote.symbol q = Some raw"
    by (cases "YahooQuote.symbol q") (auto simp: nullish_def)
  with sym have "NormalizedYahooQuote.symbol r = trim (the (YahooQuote.symbol q))"
    by (simp add: nullish_def)
  moreover have
    "out = filter (\<lambda>quote. NormalizedYahooQuote.symbol quote \<noteq> ''N/A''
                             \<and> NormalizedYahooQuote.symbol quote \<noteq> [])
              (map normalizeYahooQuote (upstreamQuotes data))"
    using out by simp
  moreover have "YahooQuote.symbol q = Some (the (YahooQuote.symbol q))"
    using raw by simp
  moreover note s d q normalizeYahooQuote_numeric [of q]
  ultimately show ?thesis
    by (intro conjI exI [of _ data] exI [of _ q]) simp_all
qed

text \<open>
  An upstream list of two quotes: the first has a padded symbol, a finite price, no
  previous close and an infinite change; the second has no symbol and is discarded.
\<close>

theorem getYahooGainers_records_witness:
  "getYahooGainers
     (Resolved
        \<lparr> ok = True, status = 200,
          json = Some \<lparr> finance = Some \<lparr> result = Some [\<lparr> quotes = Some
            [\<lparr> YahooQuote.symbol = Some '' AAPL '', shortName = Some ''Apple Inc.'',
               longName = None, regularMarketPrice = Some (Num 5),
               regularMarketPreviousClose = None, regularMarketChange = Some PosInf,
               regularMarketChangePercent = Some (Num 0) \<rparr>,
             \<lparr> YahooQuote.symbol = None, shortName = Some ''Nameless'',
               longName = None, regularMarketPrice = Some (Num 1),
               regularMarketPreviousClose = None, regularMarketChange = None,
               regularMarketChangePercent = None \<rparr>] \<rparr>] \<rparr> \<rparr> \<rparr>)
     = Inr [\<lparr> NormalizedYahooQuote.symbol = ''AAPL'', name = ''Apple Inc.'',
              price = Some (Num 5), previousClose = None, change = None,
              changePercent = Some (Num 0) \<rparr>]
   \<and> NormalizedYahooQuote.symbol
        \<lparr> NormalizedYahooQuote.symbol = ''AAPL'', name = ''Apple Inc.'',
          price = Some (Num 5), previousClose = None, change = None,
          changePercent = Some (Num 0) \<rparr> \<noteq> ''N/A''"
proof -
  let ?resp = "\<lparr> ok = True, status = 200,
          json = Some \<lparr> finance = Some \<lparr> result = Some [\<lparr> quotes = Some
            [\<lparr> YahooQuote.symbol = Some '' AAPL '', shortName = Some ''Apple Inc.'',
               longName = None, regularMarketPrice = Some (Num 5),
               regularMarketPreviousClose = None, regularMarketChange = Some PosInf,
               regularMarketChangePercent = Some (Num 0) \<rparr>,
             \<lparr> YahooQuote.symbol = None, shortName = Some ''Nameless'',
               longName = None, regularMarketPrice = Some (Num 1),
               regularMarketPreviousClose = None, regularMarketChange = None,
               regularMarketChangePercent = None \<rparr>] \<rparr>] \<rparr> \<rparr> \<rparr>"
  let ?r = "\<lparr> NormalizedYahooQuote.symbol = ''AAPL'', name = ''Apple Inc.'',
              price = Some (Num 5), previousClose = None, change = None,
              changePercent = Some (Num 0) \<rparr>"
  have run: "getYahooGainers (Resolved ?resp) = Inr [?r]"
    by code_simp
  have mem: "?r \<in> set [?r]"
    by simp
  from getYahooGainers_records [OF run mem]
  have "NormalizedYahooQuote.symbol ?r \<noteq> ''N/A''"
    by blast
  with run show ?thesis by blast
qed

text \<open>
  C9. The yahoo-gainers route answers the same for any two values of the limit query
  parameter, absent ones included, given the same upstream answer: its reply is the
  whole result of the Provider B call, to which no limit is applied.
\<close>

theorem yahoo_gainers_ignores_limit:
  "api_yahoo_gainers limit1 upstream = api_yahoo_gainers limit2 upstream
   \<and> api_yahoo_gainers limit1 upstream
       = (case getYahooGainers upstream of Inl e \<Rightarrow> Json500 e | Inr qs \<Rightarrow> Json200 qs)"
  by (simp add: api_yahoo_gainers_def)

section \<open>Properties of the limit validation\<close>

lemma limitSchema_accepts:
  "limitSchema (Some x) = Inr y \<longleftrightarrow> y = x \<and> (\<exists>n::int. x = Num (of_int n) \<and> 1 \<le> n \<and> n \<le> 20)"
proof (cases x)
  case (Num r)
  have "of_int \<lfloor>r\<rfloor> = r \<and> 1 \<le> r \<and> r \<le> 20 \<longleftrightarrow> (\<exists>n::int. r = of_int n \<and> 1 \<le> n \<and> n \<le> 20)"
  proof
    assume a: "of_int \<lfloor>r\<rfloor> = r \<and> 1 \<le> r \<and> r \<le> 20"
    define n where "n = \<lfloor>r\<rfloor>"
    have rn: "r = of_int n" unfolding n_def using a by metis
    have "1 \<le> n" "n \<le> 20" using a unfolding rn by simp_all
    with rn show "\<exists>n::int. r = of_int n \<and> 1 \<le> n \<and> n \<le> 20" by blast
  next
    assume "\<exists>n::int. r = of_int n \<and> 1 \<le> n \<and> n \<le> 20"
    then show "of_int \<lfloor>r\<rfloor> = r \<and> 1 \<le> r \<and> r \<le> 20" by auto
  qed
  then show ?thesis
    using Num by (auto simp: limitSchema_def nullish_def Let_def)
qed (auto simp: limitSchema_def nullish_def)

lemma limitSchema_valid:
  "1 \<le> n \<Longrightarrow> n \<le> 20 \<Longrightarrow> limitSchema (Some (Num (of_int n))) = Inr (Num (of_int n))"
  by (simp add: limitSchema_accepts)

lemma slice0_valid: "0 \<le> n \<Longrightarrow> slice0 items (Num (of_int n)) = take (nat n) items"
  by (simp add: slice0_def)

lemma normalizeList_valid:
  "0 \<le> n \<Longrightarrow>
   normalizeList (Num (of_int n)) items = map normalizeEntry (take (nat n) (nullish items []))"
  by (simp add: normalizeList_def slice0_valid)

text \<open>
  C1, as the claim states it, fails: the requested limits 0, 999 and \<open>abc\<close> are not
  clamped or defaulted. The schema refuses each of them, and the route answers the
  request for limit 0 with status 500 although the upstream call would have succeeded.
\<close>

theorem limit_clamp_counterexample:
  "queryLimit (Some ''0'') = Inl (ZodError [too_small])
   \<and> queryLimit (Some ''999'') = Inl (ZodError [too_big])
   \<and> queryLimit (Some ''abc'') = Inl (ZodError [invalid_type])
   \<and> api_top_movers (Some ''key'')
        (Resolved \<lparr> ok = True, status = 200,
                    json = Some \<lparr> top_gainers = Some [], top_losers = Some [],
                                  top_most_actively_traded = Some [],
                                  message = None, note = None \<rparr> \<rparr>)
        (Some ''0'')
       = Json500 (ZodError [too_small])"
  by code_simp

text \<open>
  C1, amended. The top-movers route validates the requested limit and does not clamp it.
  The effective limit is the integer that \<open>parseInt\<close> reads from the parameter when
  that integer lies in 1..20, and 10 when the parameter is absent or empty; for any other
  value the schema gives an error and the route answers with that error. A requested 7
  gives 7.
\<close>

theorem queryLimit_validates:
  "(queryLimit limit = Inr x \<longleftrightarrow>
      (if truthy limit
       then parseInt (the limit) = x \<and> (\<exists>n::int. x = Num (of_int n) \<and> 1 \<le> n \<and> n \<le> 20)
       else x = Num 10))
   \<and> api_top_movers apiKey upstream limit =
       (case queryLimit limit of
          Inl e \<Rightarrow> Json500 e
        | Inr limitValue \<Rightarrow>
            (case getTopMovers apiKey upstream limitValue of
               Inl e \<Rightarrow> Json500 e
             | Inr data \<Rightarrow> Json200 data))
   \<and> queryLimit (Some ''7'') = Inr (Num 7)
   \<and> queryLimit None = Inr (Num 10)"
proof -
  have "limitSchema (Some (Num 10)) = Inr (Num 10)"
    by code_simp
  then have ten: "limitSchema (Some (Num 10)) = Inr y \<longleftrightarrow> y = Num 10" for y
    by auto
  have "queryLimit limit = Inr x \<longleftrightarrow>
      (if truthy limit
       then parseInt (the limit) = x \<and> (\<exists>n::int. x = Num (of_int n) \<and> 1 \<le> n \<and> n \<le> 20)
       else x = Num 10)"
    using ten [of x] by (auto simp: queryLimit_def limitSchema_accepts)
  moreover have "queryLimit (Some ''7'') = Inr (Num 7)" by code_simp
  moreover have "queryLimit None = Inr (Num 10)" by code_simp
  ultimately show ?thesis
    by (simp add: api_top_movers_def)
qed

section \<open>Properties of the Provider A aggregation\<close>

lemma getTopMovers_valid:
  assumes "1 \<le> n" "n \<le> 20"
  shows "getTopMovers apiKey upstream (Num (of_int n)) =
     (if \<not> truthy apiKey then Inl MissingApiKey
      else
        (case upstream of
           Rejected \<Rightarrow> Inl FetchError
         | Resolved response \<Rightarrow>
             if \<not> ok response then Inl (AlphaVantageFailed (status response))
             else
               (case json response of
                  None \<Rightarrow> Inl JsonSyntaxError
                | Some data \<Rightarrow>
                    if truthy (message data) \<or> truthy (note data) then
                      Inl (UpstreamMessage
                             (if truthy (message data) then the (message data)
                              else the (note data)))
                    else
                      Inr \<lparr> gainers =
                              map normalizeEntry (take (nat n) (nullish (top_gainers data) [])),
                            losers =
                              map normalizeEntry (take (nat n) (nullish (top_losers data) [])),
                            mostActive =
                              map normalizeEntry
                                (take (nat n) (nullish (top_most_actively_traded data) [])) \<rparr>)))"
  using assms
  by (simp add: getTopMovers_def ensureSuccess_def limitSchema_valid normalizeList_valid
      split: fetched.splits option.splits)




text \<open>
  C8. When the aggregation succeeds with effective limit \<open>n\<close>, each of gainers, losers
  and mostActive is its upstream list cut to the same \<open>n\<close> and normalized record by
  record; cutting before normalizing gives the same list as normalizing before cutting,
  and no list is longer than \<open>n\<close>.
\<close>

theorem lists_truncated_with_one_bound:
  assumes "1 \<le> n" and "n \<le> 20"
    and "getTopMovers apiKey (Resolved response) (Num (of_int n)) = Inr out"
  shows "\<exists>data. json response = Some data
    \<and> gainers out = map normalizeEntry (take (nat n) (nullish (top_gainers data) []))
    \<and> gainers out = take (nat n) (map normalizeEntry (nullish (top_gainers data) []))
    \<and> length (gainers out) \<le> nat n
    \<and> losers out = map normalizeEntry (take (nat n) (nullish (top_losers data) []))
    \<and> losers out = take (nat n) (map normalizeEntry (nullish (top_losers data) []))
    \<and> length (losers out) \<le> nat n
    \<and> mostActive out
        = map normalizeEntry (take (nat n) (nullish (top_most_actively_traded data) []))
    \<and> mostActive out
        = take (nat n) (map normalizeEntry (nullish (top_most_actively_traded data) []))
    \<and> length (mostActive out) \<le> nat n"
  using assms(3) unfolding getTopMovers_valid [OF assms(1,2)]
  by (auto simp: take_map split: if_splits option.splits)

theorem lists_truncated_with_one_bound_witness:
  "getTopMovers (Some ''key'')
     (Resolved \<lparr> ok = True, status = 200,
                 json = Some \<lparr> top_gainers = Some [[''ticker'' \<mapsto> ''AAA''], [''ticker'' \<mapsto> ''BBB'']],
                               top_losers = Some [[''ticker'' \<mapsto> ''CCC'']],
                               top_most_actively_traded = None,
                               message = None, note = None \<rparr> \<rparr>)
     (Num (of_int 1))
     = Inr \<lparr> gainers = [\<lparr> ticker = ''AAA'', price = Num 0, change = Num 0,
                            changePercent = Num 0, volume = None \<rparr>],
             losers = [\<lparr> ticker = ''CCC'', price = Num 0, change = Num 0,
                           changePercent = Num 0, volume = None \<rparr>],
             mostActive = [] \<rparr>
   \<and> length (gainers \<lparr> gainers = [\<lparr> ticker = ''AAA'', price = Num 0, change = Num 0,
                            changePercent = Num 0, volume = None \<rparr>],
             losers = [\<lparr> ticker = ''CCC'', price = Num 0, change = Num 0,
                           changePercent = Num 0, volume = None \<rparr>],
             mostActive = [] \<rparr>) \<le> nat 1"
proof -
  let ?resp = "\<lparr> ok = True, status = 200,
                 json = Some \<lparr> top_gainers = Some [[''ticker'' \<mapsto> ''AAA''], [''ticker'' \<mapsto> ''BBB'']],
                               top_losers = Some [[''ticker'' \<mapsto> ''CCC'']],
                               top_most_actively_traded = None,
                               message = None, note = None \<rparr> \<rparr>"
  let ?out = "\<lparr> gainers = [\<lparr> ticker = ''AAA'', price = Num 0, change = Num 0,
                            changePercent = Num 0, volume = None \<rparr>],
             losers = [\<lparr> ticker = ''CCC'', price = Num 0, change = Num 0,
                           changePercent = Num 0, volume = None \<rparr>],
             mostActive = [] \<rparr>"
  have b: "(1::int) \<le> 1" "(1::int) \<le> 20" by simp_all
  have run: "getTopMovers (Some ''key'') (Resolved ?resp) (Num (of_int 1)) = Inr ?out"
    by code_simp
  from lists_truncated_with_one_bound [OF b run] have "length (gainers ?out) \<le> nat 1"
    by blast
  with run show ?thesis by blast
qed

end
